theory Spec2Isabelle
  imports Main
begin

section \<open>JavaScript strings and the Node.js path module\<close>

text \<open>
  A JavaScript string is modelled as a \<^typ>\<open>string\<close>: the list of its code units, for
  strings whose code units are below 256.  \<open>undefined\<close> is \<open>None\<close> of an option type.
\<close>

text \<open>\<open>String.prototype.trim\<close> removes white space and line terminators at both ends;
  in the modelled range these are TAB, LF, VT, FF, CR, SPACE and NBSP.\<close>

definition isWhiteSpace :: "char \<Rightarrow> bool" where
  "isWhiteSpace c =
     (c = CHR 0x09 \<or> c = CHR 0x0A \<or> c = CHR 0x0B \<or> c = CHR 0x0C \<or> c = CHR 0x0D
      \<or> c = CHR 0x20 \<or> c = CHR 0xA0)"

definition trim :: "string \<Rightarrow> string" where
  "trim s = rev (dropWhile isWhiteSpace (rev (dropWhile isWhiteSpace s)))"

text \<open>\<open>s.startsWith(p)\<close> and \<open>s.includes(sub)\<close>.\<close>

fun startsWith :: "string \<Rightarrow> string \<Rightarrow> bool" where
  "startsWith s [] = True"
| "startsWith [] (c # cs) = False"
| "startsWith (x # xs) (c # cs) = (x = c \<and> startsWith xs cs)"

fun str_includes :: "string \<Rightarrow> string \<Rightarrow> bool" where
  "str_includes [] sub = (sub = [])"
| "str_includes (x # xs) sub = (startsWith (x # xs) sub \<or> str_includes xs sub)"

text \<open>The test \<open>!x || !x.trim()\<close> on an optional string: true for \<open>undefined\<close>, for the
  empty string and for a string of white space only.\<close>

fun blank :: "string option \<Rightarrow> bool" where
  "blank None = True"
| "blank (Some s) = (trim s = [])"

text \<open>Truthiness of an optional string: defined and not empty.\<close>

fun truthy :: "string option \<Rightarrow> string option" where
  "truthy None = None"
| "truthy (Some s) = (if s = [] then None else Some s)"

text \<open>\<open>s.split(sep)\<close> for a one-character separator: always at least one piece.\<close>

fun str_split :: "char \<Rightarrow> string \<Rightarrow> string list" where
  "str_split sep [] = [[]]"
| "str_split sep (c # cs) =
     (case str_split sep cs of
        [] \<Rightarrow> (if c = sep then [[], []] else [[c]])
      | piece # pieces \<Rightarrow> (if c = sep then [] # piece # pieces else (c # piece) # pieces))"

fun str_join :: "string \<Rightarrow> string list \<Rightarrow> string" where
  "str_join sep [] = []"
| "str_join sep [x] = x"
| "str_join sep (x # y # ys) = x @ sep @ str_join sep (y # ys)"

text \<open>
  The POSIX flavour of Node's \<open>path\<close> module.  \<open>normalizeString\<close> walks the path segment by
  segment: empty segments and \<open>.\<close> are dropped, \<open>..\<close> removes the segment before it when
  there is one that is not itself \<open>..\<close>, and is kept only when the path may climb above
  its root (\<open>allowAboveRoot\<close>).  The accumulator holds the kept segments, last one first.
\<close>

fun normalizeSegments :: "bool \<Rightarrow> string list \<Rightarrow> string list \<Rightarrow> string list" where
  "normalizeSegments allowAboveRoot res [] = rev res"
| "normalizeSegments allowAboveRoot res (seg # segs) =
     (if seg = [] \<or> seg = ''.'' then normalizeSegments allowAboveRoot res segs
      else if seg = ''..'' then
        (case res of
           [] \<Rightarrow> normalizeSegments allowAboveRoot (if allowAboveRoot then [''..''] else []) segs
         | lastSeg # below \<Rightarrow>
             if lastSeg = ''..''
             then normalizeSegments allowAboveRoot (if allowAboveRoot then ''..'' # res else res) segs
             else normalizeSegments allowAboveRoot below segs)
      else normalizeSegments allowAboveRoot (seg # res) segs)"

definition normalizeString :: "string \<Rightarrow> bool \<Rightarrow> string" where
  "normalizeString p allowAboveRoot =
     str_join ''/'' (normalizeSegments allowAboveRoot [] (str_split CHR ''/'' p))"

definition path_sep :: string where
  "path_sep = ''/''"

definition path_isAbsolute :: "string \<Rightarrow> bool" where
  "path_isAbsolute p = (case p of [] \<Rightarrow> False | c # _ \<Rightarrow> c = CHR ''/'')"

definition path_normalize :: "string \<Rightarrow> string" where
  "path_normalize p =
     (if p = [] then ''.''
      else
        let isAbsolute = path_isAbsolute p;
            trailingSeparator = (last p = CHR ''/'');
            n = normalizeString p (\<not> isAbsolute)
        in if n = [] then (if isAbsolute then ''/'' else if trailingSeparator then ''./'' else ''.'')
           else (if isAbsolute then ''/'' else []) @ n @ (if trailingSeparator then ''/'' else []))"

text \<open>\<open>path.resolve(p)\<close> with one argument; \<open>cwd\<close> is what \<open>process.cwd()\<close> returns.
  The arguments are taken from the right until an absolute one is met, empty ones are
  skipped, and the working directory is the last resort.\<close>

definition path_resolve :: "string \<Rightarrow> string \<Rightarrow> string" where
  "path_resolve cwd p =
     (let (resolvedPath, resolvedAbsolute) =
            (if p = [] then ([], False) else (p @ ''/'', path_isAbsolute p));
          (resolvedPath, resolvedAbsolute) =
            (if resolvedAbsolute then (resolvedPath, resolvedAbsolute)
             else if cwd = [] then (resolvedPath, resolvedAbsolute)
             else (cwd @ ''/'' @ resolvedPath, path_isAbsolute cwd));
          n = normalizeString resolvedPath (\<not> resolvedAbsolute)
      in if resolvedAbsolute then ''/'' @ n else if n = [] then ''.'' else n)"

section \<open>Validated configuration\<close>

text \<open>
  The object \<open>getValidatedEnv()\<close> returns: the recognised variables after \<open>ENV_SCHEMA\<close>.
  The functions below take it as an argument where the source calls \<open>getValidatedEnv()\<close>,
  and take \<open>process.env\<close> as an association list where the source reads it.
\<close>

record validated_env =
  EXECUTING_CLIENT :: "string option"
  CURSOR_AGENT_PATH :: "string option"
  DEBUG_CURSOR_MCP :: bool
  CURSOR_AGENT_ECHO_PROMPT :: bool
  CURSOR_AGENT_MODEL :: "string option"
  CURSOR_AGENT_FORCE :: bool
  CURSOR_AGENT_IDLE_EXIT_MS :: "nat option"
  CURSOR_AGENT_TIMEOUT_MS :: "nat option"

type_synonym process_env = "(string \<times> string) list"

text \<open>Every \<open>throw new Error(...)\<close> of the validators is one constructor; \<open>error_message\<close>
  gives the text the source builds.\<close>

datatype error =
    InvalidTraversalInEnv
  | InvalidExecutable string
  | WorkingDirectoryOutside string string
  | WorkingDirectoryTraversal string
  | FilePathRequired
  | FilePathOutside string string
  | FilePathTraversal string

fun error_message :: "error \<Rightarrow> string" where
  "error_message InvalidTraversalInEnv = ''CURSOR_AGENT_PATH contains invalid path traversal''"
| "error_message (InvalidExecutable trimmed) =
     ''Invalid executable path: \"'' @ trimmed
       @ ''\". Only \"cursor-agent\" or exact match to CURSOR_AGENT_PATH is allowed.''"
| "error_message (WorkingDirectoryOutside trimmed baseDir) =
     ''Working directory \"'' @ trimmed @ ''\" is outside allowed path \"'' @ baseDir @ ''\"''"
| "error_message (WorkingDirectoryTraversal trimmed) =
     ''Working directory \"'' @ trimmed @ ''\" contains invalid path traversal''"
| "error_message FilePathRequired = ''File path is required''"
| "error_message (FilePathOutside trimmed baseDir) =
     ''File path \"'' @ trimmed @ ''\" is outside allowed directory \"'' @ baseDir @ ''\"''"
| "error_message (FilePathTraversal trimmed) =
     ''File path \"'' @ trimmed @ ''\" contains invalid path traversal''"

subsection \<open>executablePathSchema\<close>

definition executablePathSchema :: "string option \<Rightarrow> error + string option" where
  "executablePathSchema val =
     (case val of
        None \<Rightarrow> Inr None
      | Some v \<Rightarrow>
          if v = [] \<or> trim v = [] then Inr None
          else
            let trimmed = trim v;
                normalized = path_normalize trimmed
            in if str_includes normalized ''..''
                  \<or> (\<not> path_isAbsolute normalized \<and> str_includes normalized ''/'')
               then Inl InvalidTraversalInEnv
               else Inr (Some (if path_isAbsolute normalized then normalized else trimmed)))"

section \<open>Security validation utilities\<close>

subsection \<open>validateExecutablePath\<close>

definition validateExecutablePath :: "validated_env \<Rightarrow> string option \<Rightarrow> error + string" where
  "validateExecutablePath env explicit =
     (if blank explicit then
        (case truthy (CURSOR_AGENT_PATH env) of
           Some envPath \<Rightarrow> Inr envPath
         | None \<Rightarrow> Inr ''cursor-agent'')
      else
        let trimmed = trim (case explicit of Some e \<Rightarrow> e | None \<Rightarrow> [])
        in if trimmed = ''cursor-agent'' then Inr ''cursor-agent''
           else (case truthy (CURSOR_AGENT_PATH env) of
                   Some envPath \<Rightarrow>
                     if trimmed = envPath then Inr envPath else Inl (InvalidExecutable trimmed)
                 | None \<Rightarrow> Inl (InvalidExecutable trimmed)))"

subsection \<open>validateWorkingDirectory and validateFilePath\<close>

text \<open>The first argument is \<open>process.cwd()\<close>, the fixed base directory.\<close>

fun orEmpty :: "string option \<Rightarrow> string" where
  "orEmpty None = []"
| "orEmpty (Some s) = s"

definition insideBase :: "string \<Rightarrow> string \<Rightarrow> bool" where
  "insideBase baseDirResolved resolved =
     (resolved = baseDirResolved \<or> startsWith resolved (baseDirResolved @ path_sep))"

definition validateWorkingDirectory :: "string \<Rightarrow> string option \<Rightarrow> error + string" where
  "validateWorkingDirectory process_cwd cwd =
     (if blank cwd then Inr process_cwd
      else
        let trimmed = trim (orEmpty cwd);
            resolved = path_resolve process_cwd trimmed;
            baseDir = process_cwd;
            baseDirResolved = path_resolve process_cwd baseDir
        in if insideBase baseDirResolved resolved then
             (let normalized = path_normalize trimmed
              in if str_includes normalized ''..'' then
                   (let normalizedResolved = path_resolve process_cwd normalized
                    in if insideBase baseDirResolved normalizedResolved then Inr resolved
                       else Inl (WorkingDirectoryTraversal trimmed))
                 else Inr resolved)
           else Inl (WorkingDirectoryOutside trimmed baseDir))"

definition validateFilePath :: "string \<Rightarrow> string option \<Rightarrow> error + string" where
  "validateFilePath process_cwd filePath =
     (if blank filePath then Inl FilePathRequired
      else
        let trimmed = trim (orEmpty filePath);
            resolved = path_resolve process_cwd trimmed;
            baseDir = process_cwd;
            baseDirResolved = path_resolve process_cwd baseDir
        in if insideBase baseDirResolved resolved then
             (let normalized = path_normalize trimmed
              in if str_includes normalized ''..'' then
                   (let normalizedResolved = path_resolve process_cwd normalized
                    in if insideBase baseDirResolved normalizedResolved then Inr resolved
                       else Inl (FilePathTraversal trimmed))
                 else Inr resolved)
           else Inl (FilePathOutside trimmed baseDir))"

subsection \<open>getSafeEnvironment\<close>

text \<open>\<open>String(n)\<close> for a non-negative integer (below \<open>10^21\<close>, where JavaScript still
  prints every digit).\<close>

definition digit :: "nat \<Rightarrow> char" where
  "digit d = ''0123456789'' ! d"

function String_nat :: "nat \<Rightarrow> string" where
  "String_nat n = (if n < 10 then [digit n] else String_nat (n div 10) @ [digit (n mod 10)])"
  by pat_completeness auto
termination
  by (relation "measure id") auto

definition whitelist :: "string list" where
  "whitelist =
     [''PATH'', ''HOME'', ''USER'', ''USERNAME'', ''SHELL'', ''TMPDIR'', ''TEMP'', ''TMP'',
      ''NODE_VERSION'', ''LANG'', ''LANGUAGE'', ''EXECUTING_CLIENT'']"

definition cursorAgentPrefix :: string where
  "cursorAgentPrefix = ''CURSOR_AGENT_''"

definition npmConfigPrefix :: string where
  "npmConfigPrefix = ''NPM_CONFIG_''"

definition lcPrefix :: string where
  "lcPrefix = ''LC_''"

definition hasAllowedPrefix :: "string \<Rightarrow> bool" where
  "hasAllowedPrefix key =
     (startsWith key cursorAgentPrefix \<or> startsWith key npmConfigPrefix \<or> startsWith key lcPrefix)"

text \<open>\<open>process.env.X || '1'\<close>.\<close>

definition envOrOne :: "process_env \<Rightarrow> string \<Rightarrow> string" where
  "envOrOne penv key = (case truthy (map_of penv key) of Some v \<Rightarrow> v | None \<Rightarrow> ''1'')"

text \<open>
  The eight conditional assignments from the validated configuration, in the order of the
  source: the key, and the value when the condition holds.
\<close>

definition validatedAssignments :: "process_env \<Rightarrow> validated_env \<Rightarrow> (string \<times> string option) list" where
  "validatedAssignments penv env =
     [(''EXECUTING_CLIENT'', truthy (EXECUTING_CLIENT env)),
      (''CURSOR_AGENT_PATH'', truthy (CURSOR_AGENT_PATH env)),
      (''DEBUG_CURSOR_MCP'',
         if DEBUG_CURSOR_MCP env then Some (envOrOne penv ''DEBUG_CURSOR_MCP'') else None),
      (''CURSOR_AGENT_ECHO_PROMPT'',
         if CURSOR_AGENT_ECHO_PROMPT env then Some (envOrOne penv ''CURSOR_AGENT_ECHO_PROMPT'')
         else None),
      (''CURSOR_AGENT_MODEL'', truthy (CURSOR_AGENT_MODEL env)),
      (''CURSOR_AGENT_FORCE'',
         if CURSOR_AGENT_FORCE env then Some (envOrOne penv ''CURSOR_AGENT_FORCE'') else None),
      (''CURSOR_AGENT_IDLE_EXIT_MS'', map_option String_nat (CURSOR_AGENT_IDLE_EXIT_MS env)),
      (''CURSOR_AGENT_TIMEOUT_MS'', map_option String_nat (CURSOR_AGENT_TIMEOUT_MS env))]"

fun assign :: "(string \<rightharpoonup> string) \<Rightarrow> string \<times> string option \<Rightarrow> (string \<rightharpoonup> string)" where
  "assign safeEnv (key, None) = safeEnv"
| "assign safeEnv (key, Some v) = safeEnv(key \<mapsto> v)"

definition fromValidatedEnv :: "process_env \<Rightarrow> validated_env \<Rightarrow> (string \<rightharpoonup> string)" where
  "fromValidatedEnv penv env = foldl assign Map.empty (validatedAssignments penv env)"

text \<open>The loop over \<open>Object.entries(process.env)\<close>.\<close>

fun copyAllowed :: "process_env \<Rightarrow> (string \<rightharpoonup> string) \<Rightarrow> (string \<rightharpoonup> string)" where
  "copyAllowed [] safeEnv = safeEnv"
| "copyAllowed ((key, v) # entries) safeEnv =
     copyAllowed entries
       (if key \<in> set whitelist \<or> hasAllowedPrefix key
        then (case safeEnv key of None \<Rightarrow> safeEnv(key \<mapsto> v) | Some _ \<Rightarrow> safeEnv)
        else safeEnv)"

definition getSafeEnvironment :: "process_env \<Rightarrow> validated_env \<Rightarrow> (string \<rightharpoonup> string)" where
  "getSafeEnvironment penv env = copyAllowed penv (fromValidatedEnv penv env)"

text \<open>The variables \<open>ENV_SCHEMA\<close> recognises.\<close>

definition recognized :: "string list" where
  "recognized =
     [''EXECUTING_CLIENT'', ''CURSOR_AGENT_PATH'', ''DEBUG_CURSOR_MCP'', ''CURSOR_AGENT_ECHO_PROMPT'',
      ''CURSOR_AGENT_MODEL'', ''CURSOR_AGENT_FORCE'', ''CURSOR_AGENT_IDLE_EXIT_MS'',
      ''CURSOR_AGENT_TIMEOUT_MS'']"

section \<open>invokeCursorAgent\<close>

subsection \<open>The request and the composed argument vector\<close>

text \<open>
  The options object of \<open>invokeCursorAgent\<close>.  \<open>onProgress\<close> says whether a progress callback
  is supplied; the callback's invocations are recorded in the state below.  A caller may
  put an \<open>AbortSignal\<close> under \<open>signal\<close>; the parameter list of the source destructures
  \<open>argv\<close>, \<open>output_format\<close>, \<open>cwd\<close>, \<open>executable\<close>, \<open>model\<close>, \<open>force\<close>, \<open>print\<close> and
  \<open>onProgress\<close> only.
\<close>

record abort_signal =
  aborted :: bool
  reason :: string

record request =
  argv :: "string list option"
  output_format :: "string option"
  cwd :: "string option"
  executable :: "string option"
  model :: "string option"
  force :: "bool option"
  print :: "bool option"
  onProgress :: bool
  signal :: "abort_signal option"

definition isModelFlag :: "string \<Rightarrow> bool" where
  "isModelFlag a = (a = ''-m'' \<or> a = ''--model'' \<or> startsWith a ''-m='' \<or> startsWith a ''--model='')"

definition isForceFlag :: "string \<Rightarrow> bool" where
  "isForceFlag a = (a = ''-f'' \<or> a = ''--force'')"

definition finalArgv :: "validated_env \<Rightarrow> request \<Rightarrow> string list" where
  "finalArgv env req =
     (let userArgs = (case argv req of Some a \<Rightarrow> a | None \<Rightarrow> []);
          hasModelFlag = list_ex isModelFlag userArgs;
          envModel = CURSOR_AGENT_MODEL env;
          effectiveModel = (case truthy (map_option trim (model req)) of
                              Some m \<Rightarrow> Some m | None \<Rightarrow> truthy envModel);
          hasForceFlag = list_ex isForceFlag userArgs;
          envForce = CURSOR_AGENT_FORCE env;
          effectiveForce = (case force req of Some b \<Rightarrow> b | None \<Rightarrow> envForce);
          (promptArg, argsWithoutPrompt) =
            (if userArgs = [] then (None, userArgs)
             else
               let lastArg = last userArgs
               in if lastArg = [] then (None, userArgs)
                  else if startsWith lastArg ''-'' then (None, userArgs)
                  else (Some lastArg, butlast userArgs));
          useStreamJson = onProgress req;
          finalOutputFormat =
            (if useStreamJson then ''stream-json''
             else (case output_format req of Some f \<Rightarrow> f | None \<Rightarrow> ''text''));
          printFlag = (case print req of Some b \<Rightarrow> b | None \<Rightarrow> True)
      in (if printFlag then [''--print'', ''--output-format'', finalOutputFormat] else [])
         @ (if useStreamJson \<and> printFlag then [''--stream-partial-output''] else [])
         @ argsWithoutPrompt
         @ (if hasForceFlag then [] else if effectiveForce then [''-f''] else [])
         @ (if hasModelFlag then []
            else (case effectiveModel of Some m \<Rightarrow> [''--model'', m] | None \<Rightarrow> []))
         @ (case promptArg of Some p \<Rightarrow> [p] | None \<Rightarrow> []))"

subsection \<open>Validation and spawn\<close>

record spawn_call =
  spawn_cmd :: string
  spawn_args :: "string list"
  spawn_cwd :: string
  spawn_env :: "string \<rightharpoonup> string"

text \<open>The part of \<open>invokeCursorAgent\<close> before the promise: a validator that throws rejects the
  call (\<open>Inl\<close>); otherwise \<open>spawn(cmd, finalArgv, {shell: false, cwd, env})\<close> is called.\<close>

definition invokeCursorAgent_spawn ::
  "string \<Rightarrow> process_env \<Rightarrow> validated_env \<Rightarrow> request \<Rightarrow> error + spawn_call" where
  "invokeCursorAgent_spawn process_cwd penv env req =
     (case validateExecutablePath env (executable req) of
        Inl e \<Rightarrow> Inl e
      | Inr cmd \<Rightarrow>
          (case validateWorkingDirectory process_cwd (cwd req) of
             Inl e \<Rightarrow> Inl e
           | Inr validatedCwd \<Rightarrow>
               Inr \<lparr>spawn_cmd = cmd, spawn_args = finalArgv env req, spawn_cwd = validatedCwd,
                    spawn_env = getSafeEnvironment penv env\<rparr>))"

subsection \<open>Stream events\<close>

text \<open>
  What \<open>JSON.parse\<close> yields for one line of \<open>stream-json\<close> output, at the types the stream
  protocol gives the fields that \<open>handleStreamEvent\<close> reads; a field that is absent, or a
  link of an optional chain that is missing, is \<open>None\<close>.  \<open>OtherEvent\<close> is any other parsed
  value (not an object, or an object of another \<open>type\<close>).
\<close>

datatype write_result = WriteSuccess "nat option" "nat option" | WriteNoSuccess

datatype read_result = ReadSuccess "nat option" | ReadNoSuccess

record write_tool =
  write_path :: "string option"
  write_result :: "write_result option"

record read_tool =
  read_path :: "string option"
  read_result :: "read_result option"

record tool_call =
  writeToolCall :: "write_tool option"
  readToolCall :: "read_tool option"

datatype stream_event =
    SystemEvent "string option" "string option"
  | AssistantEvent "string option"
  | ToolCallEvent "string option" "tool_call option"
  | ResultEvent "nat option"
  | OtherEvent

record progress_event =
  progress :: nat
  total :: "nat option"
  message :: string

subsection \<open>The state of one invocation\<close>

text \<open>
  The variables of the promise executor's closure, and what the invocation has done so
  far: the calls of \<open>resolve\<close>, the number of \<open>child.kill('SIGKILL')\<close> calls and the calls of
  \<open>onProgress\<close>, each in order.  A timer is \<open>True\<close> while it is pending: set and neither
  fired nor cleared.
\<close>

record tool_result =
  content_text :: string
  isError :: bool

record invocation_state =
  settled :: bool
  out :: string
  err :: string
  idleTimer :: bool
  mainTimer :: bool
  killedByIdle :: bool
  accumulatedText :: string
  toolCount :: nat
  partialLine :: string
  resolved :: "tool_result list"
  kills :: nat
  progressed :: "progress_event list"

text \<open>The constants of the closure.\<close>

record invocation =
  cmd :: string
  args :: "string list"
  safeEnv :: "string \<rightharpoonup> string"
  useStreamJson :: bool
  idleMs :: nat
  timeoutMs :: nat

definition defaultTimeout :: nat where
  "defaultTimeout = 30000"

definition invocation_of :: "validated_env \<Rightarrow> request \<Rightarrow> spawn_call \<Rightarrow> invocation" where
  "invocation_of env req call =
     \<lparr>cmd = spawn_cmd call, args = spawn_args call, safeEnv = spawn_env call,
      useStreamJson = onProgress req,
      idleMs = (case CURSOR_AGENT_IDLE_EXIT_MS env of Some n \<Rightarrow> n | None \<Rightarrow> 0),
      timeoutMs = (case CURSOR_AGENT_TIMEOUT_MS env of Some n \<Rightarrow> n | None \<Rightarrow> defaultTimeout)\<rparr>"

text \<open>The state when the executor returns: \<open>mainTimer\<close> has been set.\<close>

definition initial :: invocation_state where
  "initial =
     \<lparr>settled = False, out = [], err = [], idleTimer = False, mainTimer = True,
      killedByIdle = False, accumulatedText = [], toolCount = 0, partialLine = [],
      resolved = [], kills = 0, progressed = []\<rparr>"

definition cleanup :: "invocation_state \<Rightarrow> invocation_state" where
  "cleanup s = s\<lparr>mainTimer := False, idleTimer := False\<rparr>"

definition resolve :: "tool_result \<Rightarrow> invocation_state \<Rightarrow> invocation_state" where
  "resolve r s = s\<lparr>resolved := resolved s @ [r]\<rparr>"

definition kill :: "invocation_state \<Rightarrow> invocation_state" where
  "kill s = s\<lparr>kills := Suc (kills s)\<rparr>"

definition callOnProgress :: "progress_event \<Rightarrow> invocation_state \<Rightarrow> invocation_state" where
  "callOnProgress p s = s\<lparr>progressed := progressed s @ [p]\<rparr>"

definition scheduleIdleKill :: "invocation \<Rightarrow> invocation_state \<Rightarrow> invocation_state" where
  "scheduleIdleKill iv s = (if idleMs iv = 0 then s else s\<lparr>idleTimer := True\<rparr>)"

subsection \<open>handleStreamEvent\<close>

text \<open>The check mark of the completion messages is U+2705, outside the modelled range of
  code units; its three UTF-8 bytes stand for it.\<close>

definition checkMark :: string where
  "checkMark = [CHR 0xE2, CHR 0x9C, CHR 0x85]"

definition orZero :: "nat option \<Rightarrow> nat" where
  "orZero n = (case n of Some k \<Rightarrow> k | None \<Rightarrow> 0)"

definition orUnknown :: "string option \<Rightarrow> string" where
  "orUnknown x = (case truthy x of Some v \<Rightarrow> v | None \<Rightarrow> ''unknown'')"

definition toolStarted :: "tool_call option \<Rightarrow> invocation_state \<Rightarrow> invocation_state" where
  "toolStarted toolCall s0 =
     (let s = s0\<lparr>toolCount := Suc (toolCount s0)\<rparr>
      in case Option.bind toolCall writeToolCall of
           Some w \<Rightarrow>
             callOnProgress
               \<lparr>progress = toolCount s, total = None,
                message = ''Writing file: '' @ orUnknown (write_path w)\<rparr> s
         | None \<Rightarrow>
             (case Option.bind toolCall readToolCall of
                Some r \<Rightarrow>
                  callOnProgress
                    \<lparr>progress = toolCount s, total = None,
                     message = ''Reading file: '' @ orUnknown (read_path r)\<rparr> s
              | None \<Rightarrow>
                  callOnProgress
                    \<lparr>progress = toolCount s, total = None,
                     message = ''Executing tool #'' @ String_nat (toolCount s) @ ''...''\<rparr> s))"

definition toolCompleted :: "tool_call option \<Rightarrow> invocation_state \<Rightarrow> invocation_state" where
  "toolCompleted toolCall s =
     (let w = Option.bind (Option.bind toolCall writeToolCall) write_result;
          r = Option.bind (Option.bind toolCall readToolCall) read_result
      in case w of
           Some (WriteSuccess linesCreated fileSize) \<Rightarrow>
             callOnProgress
               \<lparr>progress = toolCount s, total = None,
                message = checkMark @ '' Created '' @ String_nat (orZero linesCreated)
                          @ '' lines ('' @ String_nat (orZero fileSize) @ '' bytes)''\<rparr> s
         | _ \<Rightarrow>
             (case r of
                Some (ReadSuccess totalLines) \<Rightarrow>
                  callOnProgress
                    \<lparr>progress = toolCount s, total = None,
                     message = checkMark @ '' Read '' @ String_nat (orZero totalLines)
                               @ '' lines''\<rparr> s
              | _ \<Rightarrow>
                  if w = None \<and> r = None then s
                  else
                    callOnProgress
                      \<lparr>progress = toolCount s, total = None,
                       message = checkMark @ '' Tool #'' @ String_nat (toolCount s)
                                 @ '' completed''\<rparr> s))"

fun handleStreamEvent :: "bool \<Rightarrow> stream_event \<Rightarrow> invocation_state \<Rightarrow> invocation_state" where
  "handleStreamEvent False event s = s"
| "handleStreamEvent True OtherEvent s = s"
| "handleStreamEvent True (SystemEvent subtype modelName) s =
     (if subtype = Some ''init''
      then callOnProgress
             \<lparr>progress = 0, total = None,
              message = ''Initializing cursor-agent (model: '' @ orUnknown modelName @ '')...''\<rparr> s
      else s)"
| "handleStreamEvent True (AssistantEvent txt) s =
     (case truthy txt of
        None \<Rightarrow> s
      | Some t \<Rightarrow>
          let s1 = s\<lparr>accumulatedText := accumulatedText s @ t\<rparr>
          in callOnProgress
               \<lparr>progress = length (accumulatedText s1), total = None,
                message = ''Generating response... ('' @ String_nat (length (accumulatedText s1))
                          @ '' characters)''\<rparr> s1)"
| "handleStreamEvent True (ToolCallEvent subtype toolCall) s =
     (if subtype = Some ''started'' then toolStarted toolCall s
      else if subtype = Some ''completed'' then toolCompleted toolCall s
      else s)"
| "handleStreamEvent True (ResultEvent duration_ms) s =
     callOnProgress
       \<lparr>progress = 100, total = Some 100,
        message = ''Completed in '' @ String_nat (orZero duration_ms) @ ''ms''\<rparr> s"

subsection \<open>The handlers of the child's events and of the timers\<close>

text \<open>\<open>JSON.parse\<close> is an argument: \<open>None\<close> where it throws.\<close>

type_synonym json_parse = "string \<Rightarrow> stream_event option"

definition parseLine :: "json_parse \<Rightarrow> bool \<Rightarrow> string \<Rightarrow> invocation_state \<Rightarrow> invocation_state" where
  "parseLine parse hasProgress ln s =
     (let trimmed = trim ln
      in if trimmed = [] then s
         else (case parse trimmed of
                 None \<Rightarrow> s
               | Some event \<Rightarrow> handleStreamEvent hasProgress event s))"

fun parseLines :: "json_parse \<Rightarrow> bool \<Rightarrow> string list \<Rightarrow> invocation_state \<Rightarrow> invocation_state" where
  "parseLines parse hasProgress [] s = s"
| "parseLines parse hasProgress (ln # lns) s =
     parseLines parse hasProgress lns (parseLine parse hasProgress ln s)"

definition onStdoutData ::
  "json_parse \<Rightarrow> bool \<Rightarrow> invocation \<Rightarrow> string \<Rightarrow> invocation_state \<Rightarrow> invocation_state" where
  "onStdoutData parse hasProgress iv chunk s0 =
     (let s = scheduleIdleKill iv (s0\<lparr>out := out s0 @ chunk\<rparr>)
      in if useStreamJson iv \<and> hasProgress then
           (let dat = partialLine s @ chunk;
                lns = str_split CHR 0x0A dat
            in parseLines parse hasProgress (butlast lns) (s\<lparr>partialLine := last lns\<rparr>))
         else if hasProgress then
           callOnProgress
             \<lparr>progress = length (out s), total = None,
              message = ''Received '' @ String_nat (length (out s)) @ '' bytes of output...''\<rparr> s
         else s)"

definition onStderrData :: "string \<Rightarrow> invocation_state \<Rightarrow> invocation_state" where
  "onStderrData chunk s = s\<lparr>err := err s @ chunk\<rparr>"

text \<open>\<open>JSON.stringify\<close> of an array of strings.\<close>

definition hexDigit :: "nat \<Rightarrow> char" where
  "hexDigit d = ''0123456789abcdef'' ! d"

definition quoteChar :: "char \<Rightarrow> string" where
  "quoteChar c =
     (if c = CHR 0x22 then [CHR 0x5C, CHR 0x22]
      else if c = CHR 0x5C then [CHR 0x5C, CHR 0x5C]
      else if c = CHR 0x08 then [CHR 0x5C, CHR ''b'']
      else if c = CHR 0x0C then [CHR 0x5C, CHR ''f'']
      else if c = CHR 0x0A then [CHR 0x5C, CHR ''n'']
      else if c = CHR 0x0D then [CHR 0x5C, CHR ''r'']
      else if c = CHR 0x09 then [CHR 0x5C, CHR ''t'']
      else if (of_char c :: nat) < 32
        then [CHR 0x5C, CHR ''u'', CHR ''0'', CHR ''0'',
              hexDigit (of_char c div 16), hexDigit (of_char c mod 16)]
      else [c])"

definition quoteJSONString :: "string \<Rightarrow> string" where
  "quoteJSONString s = [CHR 0x22] @ concat (map quoteChar s) @ [CHR 0x22]"

definition JSON_stringify :: "string list \<Rightarrow> string" where
  "JSON_stringify xs = ''['' @ str_join '','' (map quoteJSONString xs) @ '']''"

text \<open>The error object of the child's \<open>error\<close> event; \<open>e?.message || e\<close> in a template is
  the message, or \<open>String(e)\<close> when the message is empty, which is then the error's name.\<close>

record js_error =
  error_name :: string
  error_text :: string

definition messageOrError :: "js_error \<Rightarrow> string" where
  "messageOrError e = (if error_text e = [] then error_name e else error_text e)"

definition spawnFailureText :: "invocation \<Rightarrow> js_error \<Rightarrow> string" where
  "spawnFailureText iv e =
     ''Failed to start '' @ [CHR 0x22] @ cmd iv @ [CHR 0x22] @ '': '' @ messageOrError e @ [CHR 0x0A]
     @ ''Args: '' @ JSON_stringify (args iv) @ [CHR 0x0A]
     @ (case truthy (safeEnv iv ''CURSOR_AGENT_PATH'') of
          Some v \<Rightarrow> ''CURSOR_AGENT_PATH='' @ v @ [CHR 0x0A]
        | None \<Rightarrow> [])"

definition onError :: "invocation \<Rightarrow> js_error \<Rightarrow> invocation_state \<Rightarrow> invocation_state" where
  "onError iv e s =
     (if settled s then s
      else
        let s1 = cleanup (s\<lparr>settled := True\<rparr>)
        in resolve \<lparr>content_text = spawnFailureText iv e, isError = True\<rparr> s1)"

definition onMainTimer :: "invocation \<Rightarrow> invocation_state \<Rightarrow> invocation_state" where
  "onMainTimer iv s0 =
     (let s = kill s0
      in if settled s then s
         else
           let s1 = cleanup (s\<lparr>settled := True\<rparr>)
           in resolve
                \<lparr>content_text = ''cursor-agent timed out after '' @ String_nat (timeoutMs iv) @ ''ms'',
                 isError = True\<rparr> s1)"

definition onIdleTimer :: "invocation_state \<Rightarrow> invocation_state" where
  "onIdleTimer s = kill (s\<lparr>killedByIdle := True\<rparr>)"

text \<open>The exit code in a template: a number, or \<open>null\<close> when a signal ended the child.\<close>

definition String_code :: "int option \<Rightarrow> string" where
  "String_code code =
     (case code of
        None \<Rightarrow> ''null''
      | Some n \<Rightarrow> if n < 0 then ''-'' @ String_nat (nat (- n)) else String_nat (nat n))"

definition noOutput :: string where
  "noOutput = ''(no output)''"

text \<open>The close handler's treatment of a remaining partial line.\<close>

definition processRemainingLine ::
  "json_parse \<Rightarrow> bool \<Rightarrow> invocation \<Rightarrow> invocation_state \<Rightarrow> invocation_state" where
  "processRemainingLine parse hasProgress iv s =
     (if useStreamJson iv \<and> hasProgress \<and> trim (partialLine s) \<noteq> []
      then (case parse (trim (partialLine s)) of
              None \<Rightarrow> s
            | Some event \<Rightarrow> handleStreamEvent hasProgress event s)
      else s)"

definition closeResult :: "int option \<Rightarrow> invocation_state \<Rightarrow> tool_result" where
  "closeResult code s =
     (if code = Some 0 \<or> (killedByIdle s \<and> out s \<noteq> [])
      then \<lparr>content_text = (if out s = [] then noOutput else out s), isError = False\<rparr>
      else \<lparr>content_text =
              ''cursor-agent exited with code '' @ String_code code @ [CHR 0x0A]
              @ (if err s \<noteq> [] then err s else if out s \<noteq> [] then out s else noOutput),
            isError = True\<rparr>)"

definition onClose ::
  "json_parse \<Rightarrow> bool \<Rightarrow> invocation \<Rightarrow> int option \<Rightarrow> invocation_state \<Rightarrow> invocation_state" where
  "onClose parse hasProgress iv code s =
     (if settled s then s
      else
        let s1 = cleanup (s\<lparr>settled := True\<rparr>);
            s2 = processRemainingLine parse hasProgress iv s1
        in resolve (closeResult code s2) s2)"

subsection \<open>Events and runs\<close>

text \<open>
  What the event loop can deliver to an invocation.  A timer's callback runs only while
  the timer is pending, and the timer is no longer pending once it has run.
\<close>

datatype event =
    StdoutData string
  | StderrData string
  | ChildError js_error
  | MainTimerFired
  | IdleTimerFired
  | ChildClose "int option"

fun step :: "json_parse \<Rightarrow> bool \<Rightarrow> invocation \<Rightarrow> invocation_state \<Rightarrow> event \<Rightarrow> invocation_state" where
  "step parse hasProgress iv s (StdoutData chunk) = onStdoutData parse hasProgress iv chunk s"
| "step parse hasProgress iv s (StderrData chunk) = onStderrData chunk s"
| "step parse hasProgress iv s (ChildError e) = onError iv e s"
| "step parse hasProgress iv s MainTimerFired =
     (if mainTimer s then onMainTimer iv (s\<lparr>mainTimer := False\<rparr>) else s)"
| "step parse hasProgress iv s IdleTimerFired =
     (if idleTimer s then onIdleTimer (s\<lparr>idleTimer := False\<rparr>) else s)"
| "step parse hasProgress iv s (ChildClose code) = onClose parse hasProgress iv code s"

definition run ::
  "json_parse \<Rightarrow> bool \<Rightarrow> invocation \<Rightarrow> invocation_state \<Rightarrow> event list \<Rightarrow> invocation_state" where
  "run parse hasProgress iv s events = foldl (step parse hasProgress iv) s events"

text \<open>The events that can complete an invocation.\<close>

fun completes :: "event \<Rightarrow> bool" where
  "completes (ChildError e) = True"
| "completes MainTimerFired = True"
| "completes (ChildClose code) = True"
| "completes ev = False"

text \<open>
  The whole of \<open>invokeCursorAgent\<close> on a sequence of events: rejected by a validator, or
  spawned and then the promise's value, which is the first resolution (\<open>None\<close> while the
  promise is pending).
\<close>

definition invokeCursorAgent ::
  "json_parse \<Rightarrow> string \<Rightarrow> process_env \<Rightarrow> validated_env \<Rightarrow> request \<Rightarrow> event list
     \<Rightarrow> error + (spawn_call \<times> tool_result option)" where
  "invokeCursorAgent parse process_cwd penv env req events =
     (case invokeCursorAgent_spawn process_cwd penv env req of
        Inl e \<Rightarrow> Inl e
      | Inr call \<Rightarrow>
          (case resolved (run parse (onProgress req) (invocation_of env req call) initial events) of
             [] \<Rightarrow> Inr (call, None)
           | r # _ \<Rightarrow> Inr (call, Some r)))"

subsection \<open>Defaults\<close>

text \<open>What \<open>getValidatedEnv()\<close> returns when none of the recognised variables is set, and
  the options object \<open>{}\<close>.\<close>

definition defaultEnv :: validated_env where
  "defaultEnv =
     \<lparr>EXECUTING_CLIENT = None, CURSOR_AGENT_PATH = None, DEBUG_CURSOR_MCP = False,
      CURSOR_AGENT_ECHO_PROMPT = False, CURSOR_AGENT_MODEL = None, CURSOR_AGENT_FORCE = False,
      CURSOR_AGENT_IDLE_EXIT_MS = None, CURSOR_AGENT_TIMEOUT_MS = None\<rparr>"

definition defaultRequest :: request where
  "defaultRequest =
     \<lparr>argv = None, output_format = None, cwd = None, executable = None, model = None,
      force = None, print = None, onProgress = False, signal = None\<rparr>"

section \<open>getValidatedEnv\<close>

text \<open>
  \<open>ENV_SCHEMA.parse\<close> of the eight recognised variables of \<open>process.env\<close>.  The cache of the
  source is keyed by the same eight values and returns what parsing them returned.
  \<open>Number.parseInt(s, 10)\<close> is an argument: it yields \<open>NaN\<close>, an infinity or a number that
  holds an integer.
\<close>

datatype js_number = NaN | PosInfinity | NegInfinity | Finite int

type_synonym number_parseInt = "string \<Rightarrow> js_number"

text \<open>\<open>String.prototype.toLowerCase\<close> in the modelled range of code units: the ASCII and the
  Latin-1 capital letters move up by 32.\<close>

definition toLowerCaseChar :: "char \<Rightarrow> char" where
  "toLowerCaseChar c =
     (let n = (of_char c :: nat)
      in if (65 \<le> n \<and> n \<le> 90) \<or> (192 \<le> n \<and> n \<le> 222 \<and> n \<noteq> 215) then char_of (n + 32) else c)"

definition toLowerCase :: "string \<Rightarrow> string" where
  "toLowerCase s = map toLowerCaseChar s"

definition booleanEnvSchema :: "string option \<Rightarrow> bool" where
  "booleanEnvSchema val =
     (case val of
        None \<Rightarrow> False
      | Some v \<Rightarrow>
          if v = [] then False
          else
            let lower = trim (toLowerCase v)
            in lower = ''1'' \<or> lower = ''true'' \<or> lower = ''yes'' \<or> lower = ''on'')"

definition positiveIntMsSchema :: "number_parseInt \<Rightarrow> string option \<Rightarrow> nat option" where
  "positiveIntMsSchema parseInt val =
     (case val of
        None \<Rightarrow> None
      | Some v \<Rightarrow>
          if v = [] then None
          else (case parseInt (trim v) of
                  Finite parsed \<Rightarrow> if parsed < 0 then None else Some (nat parsed)
                | _ \<Rightarrow> None))"

text \<open>\<open>z.enum(['cursor', 'clause']).optional()\<close> and \<open>z.string().trim().min(1).optional()\<close>:
  \<open>None\<close> is an issue of the parse, \<open>Some\<close> the parsed value.\<close>

definition clientSchema :: "string option \<Rightarrow> string option option" where
  "clientSchema val =
     (case val of
        None \<Rightarrow> Some None
      | Some v \<Rightarrow> if v = ''cursor'' \<or> v = ''clause'' then Some (Some v) else None)"

definition modelSchema :: "string option \<Rightarrow> string option option" where
  "modelSchema val =
     (case val of
        None \<Rightarrow> Some None
      | Some v \<Rightarrow> if length (trim v) < 1 then None else Some (Some (trim v)))"

text \<open>
  The errors of \<open>ENV_SCHEMA.parse\<close>: the \<open>Error\<close> that the transform of \<open>CURSOR_AGENT_PATH\<close>
  throws, which leaves the parse at once, or else a \<open>ZodError\<close> with the paths of its
  issues.
\<close>

datatype env_error = TransformError error | ZodError "string list"

definition ENV_SCHEMA_parse ::
  "number_parseInt \<Rightarrow> (string \<Rightarrow> string option) \<Rightarrow> env_error + validated_env" where
  "ENV_SCHEMA_parse parseInt input =
     (case executablePathSchema (input ''CURSOR_AGENT_PATH'') of
        Inl e \<Rightarrow> Inl (TransformError e)
      | Inr agentPath \<Rightarrow>
          (case (clientSchema (input ''EXECUTING_CLIENT''), modelSchema (input ''CURSOR_AGENT_MODEL'')) of
             (Some client, Some agentModel) \<Rightarrow>
               Inr \<lparr>EXECUTING_CLIENT = client,
                    CURSOR_AGENT_PATH = agentPath,
                    DEBUG_CURSOR_MCP = booleanEnvSchema (input ''DEBUG_CURSOR_MCP''),
                    CURSOR_AGENT_ECHO_PROMPT = booleanEnvSchema (input ''CURSOR_AGENT_ECHO_PROMPT''),
                    CURSOR_AGENT_MODEL = agentModel,
                    CURSOR_AGENT_FORCE = booleanEnvSchema (input ''CURSOR_AGENT_FORCE''),
                    CURSOR_AGENT_IDLE_EXIT_MS =
                      positiveIntMsSchema parseInt (input ''CURSOR_AGENT_IDLE_EXIT_MS''),
                    CURSOR_AGENT_TIMEOUT_MS =
                      positiveIntMsSchema parseInt (input ''CURSOR_AGENT_TIMEOUT_MS'')\<rparr>
           | (None, Some agentModel) \<Rightarrow> Inl (ZodError [''EXECUTING_CLIENT''])
           | (Some client, None) \<Rightarrow> Inl (ZodError [''CURSOR_AGENT_MODEL''])
           | (None, None) \<Rightarrow> Inl (ZodError [''EXECUTING_CLIENT'', ''CURSOR_AGENT_MODEL''])))"

definition getValidatedEnv :: "number_parseInt \<Rightarrow> process_env \<Rightarrow> env_error + validated_env" where
  "getValidatedEnv parseInt penv = ENV_SCHEMA_parse parseInt (map_of penv)"


section \<open>Properties of the validators\<close>

lemma startsWith_iff: "startsWith s p \<longleftrightarrow> (\<exists>t. s = p @ t)"
  by (induction s p rule: startsWith.induct) auto

text \<open>
  Claim C3.  \<open>validateExecutablePath\<close> returns the configured override, or the sentinel
  \<open>cursor-agent\<close> when none is configured, whenever the explicit value is undefined, empty
  or white space; it returns the sentinel when the explicit value trims to
  \<open>cursor-agent\<close>; it returns the override when the explicit value trims to exactly the
  configured override; and it throws the invalid-executable error, carrying the trimmed
  value, for every other input.  The override is the validated \<open>CURSOR_AGENT_PATH\<close>.
\<close>

theorem C3_validateExecutablePath_policy:
  "(blank explicit \<longrightarrow>
      validateExecutablePath env explicit =
        Inr (case truthy (CURSOR_AGENT_PATH env) of
               Some envPath \<Rightarrow> envPath | None \<Rightarrow> ''cursor-agent''))
   \<and> (\<not> blank explicit \<and> trim (orEmpty explicit) = ''cursor-agent'' \<longrightarrow>
      validateExecutablePath env explicit = Inr ''cursor-agent'')
   \<and> (\<not> blank explicit \<and> truthy (CURSOR_AGENT_PATH env) = Some (trim (orEmpty explicit)) \<longrightarrow>
      validateExecutablePath env explicit = Inr (trim (orEmpty explicit)))
   \<and> (\<not> blank explicit \<and> trim (orEmpty explicit) \<noteq> ''cursor-agent''
        \<and> truthy (CURSOR_AGENT_PATH env) \<noteq> Some (trim (orEmpty explicit)) \<longrightarrow>
      validateExecutablePath env explicit = Inl (InvalidExecutable (trim (orEmpty explicit))))"
  by (cases explicit) (auto simp: validateExecutablePath_def Let_def split: option.splits)

theorem C3_validateExecutablePath_witness:
  "validateExecutablePath (defaultEnv\<lparr>CURSOR_AGENT_PATH := Some ''/opt/agent''\<rparr>) (Some ''  '')
     = Inr ''/opt/agent''
   \<and> validateExecutablePath defaultEnv None = Inr ''cursor-agent''
   \<and> validateExecutablePath (defaultEnv\<lparr>CURSOR_AGENT_PATH := Some ''/opt/agent''\<rparr>)
         (Some '' cursor-agent '') = Inr ''cursor-agent''
   \<and> validateExecutablePath (defaultEnv\<lparr>CURSOR_AGENT_PATH := Some ''/opt/agent''\<rparr>)
         (Some ''/opt/agent'') = Inr ''/opt/agent''
   \<and> validateExecutablePath (defaultEnv\<lparr>CURSOR_AGENT_PATH := Some ''/opt/agent''\<rparr>)
         (Some ''/usr/bin/evil'') = Inl (InvalidExecutable ''/usr/bin/evil'')"
  using
    C3_validateExecutablePath_policy
      [of "Some ''  ''" "defaultEnv\<lparr>CURSOR_AGENT_PATH := Some ''/opt/agent''\<rparr>"]
    C3_validateExecutablePath_policy [of None defaultEnv]
    C3_validateExecutablePath_policy
      [of "Some '' cursor-agent ''" "defaultEnv\<lparr>CURSOR_AGENT_PATH := Some ''/opt/agent''\<rparr>"]
    C3_validateExecutablePath_policy
      [of "Some ''/opt/agent''" "defaultEnv\<lparr>CURSOR_AGENT_PATH := Some ''/opt/agent''\<rparr>"]
    C3_validateExecutablePath_policy
      [of "Some ''/usr/bin/evil''" "defaultEnv\<lparr>CURSOR_AGENT_PATH := Some ''/opt/agent''\<rparr>"]
  by (simp add: trim_def isWhiteSpace_def defaultEnv_def)

subsection \<open>Containment of paths\<close>

lemma path_resolve_empty:
  "path_isAbsolute process_cwd \<Longrightarrow>
     path_resolve process_cwd [] = path_resolve process_cwd process_cwd"
  by (cases process_cwd) (simp_all add: path_resolve_def path_isAbsolute_def)

text \<open>
  Claim C2.  Let the base directory \<open>process.cwd()\<close> be absolute, as it always is.  For every
  working-directory or file-path input \<open>p\<close> whose absolute resolution (of the trimmed input,
  as the validators compute it) is neither the resolved base directory nor a string that
  starts with the base directory followed by the path separator,
  \<open>validateWorkingDirectory\<close> and \<open>validateFilePath\<close> throw their outside-the-base error.
  The witness is the sibling \<open>/x/repo-evil\<close> of the base \<open>/x/repo\<close>.
\<close>

theorem C2_path_escape_rejected:
  assumes "path_isAbsolute process_cwd"
    and "path_resolve process_cwd (trim p) \<noteq> path_resolve process_cwd process_cwd"
    and "\<not> startsWith (path_resolve process_cwd (trim p))
               (path_resolve process_cwd process_cwd @ path_sep)"
  shows "validateWorkingDirectory process_cwd (Some p)
           = Inl (WorkingDirectoryOutside (trim p) process_cwd)
         \<and> validateFilePath process_cwd (Some p) = Inl (FilePathOutside (trim p) process_cwd)"
proof -
  have "trim p \<noteq> []"
    using assms(1,2) path_resolve_empty by fastforce
  then show ?thesis
    using assms(2,3)
    by (simp add: validateWorkingDirectory_def validateFilePath_def insideBase_def Let_def)
qed

theorem C2_path_escape_witness:
  "path_resolve ''/x/repo'' ''/x/repo'' = ''/x/repo''
   \<and> path_resolve ''/x/repo'' (trim ''/x/repo-evil'') = ''/x/repo-evil''
   \<and> validateWorkingDirectory ''/x/repo'' (Some ''/x/repo-evil'')
        = Inl (WorkingDirectoryOutside ''/x/repo-evil'' ''/x/repo'')
   \<and> validateFilePath ''/x/repo'' (Some ''/x/repo-evil'')
        = Inl (FilePathOutside ''/x/repo-evil'' ''/x/repo'')"
proof -
  have t: "trim ''/x/repo-evil'' = ''/x/repo-evil''"
    by (simp add: trim_def isWhiteSpace_def)
  have b: "path_resolve ''/x/repo'' ''/x/repo'' = ''/x/repo''"
    by (simp add: path_resolve_def path_isAbsolute_def normalizeString_def)
  have r: "path_resolve ''/x/repo'' ''/x/repo-evil'' = ''/x/repo-evil''"
    by (simp add: path_resolve_def path_isAbsolute_def normalizeString_def)
  have a: "path_isAbsolute ''/x/repo''"
    by (simp add: path_isAbsolute_def)
  have n: "\<not> startsWith ''/x/repo-evil'' (''/x/repo'' @ path_sep)"
    by (simp add: path_sep_def)
  show ?thesis
    using C2_path_escape_rejected [of "''/x/repo''" "''/x/repo-evil''"] a n
    by (simp add: t b r)
qed

subsection \<open>The sanitized environment\<close>

lemma dom_foldl_assign:
  "key \<in> dom (foldl assign m kvs) \<Longrightarrow> key \<in> dom m \<or> key \<in> fst ` set kvs"
proof (induction kvs arbitrary: m)
  case Nil
  then show ?case by simp
next
  case (Cons kv kvs)
  obtain k x where kv: "kv = (k, x)" by (cases kv)
  from Cons.prems have "key \<in> dom (assign m kv) \<or> key \<in> fst ` set kvs"
    using Cons.IH [of "assign m kv"] by simp
  then show ?case
    by (cases x) (auto simp: kv split: if_splits)
qed

lemma dom_fromValidatedEnv:
  assumes "key \<in> dom (fromValidatedEnv penv env)"
  shows "key \<in> set recognized"
proof -
  have "key \<in> fst ` set (validatedAssignments penv env)"
    using dom_foldl_assign [of key Map.empty] assms by (simp add: fromValidatedEnv_def)
  then show ?thesis
    unfolding validatedAssignments_def recognized_def
    by (simp only: list.set image_insert image_empty fst_conv insert_iff)
qed

lemma dom_copyAllowed:
  "key \<in> dom (copyAllowed entries m) \<Longrightarrow>
     key \<in> dom m \<or> key \<in> set whitelist \<or> hasAllowedPrefix key"
proof (induction entries arbitrary: m)
  case Nil
  then show ?case by simp
next
  case (Cons entry entries)
  obtain k v where e: "entry = (k, v)" by (cases entry)
  from Cons.prems e Cons.IH show ?case
    by (fastforce split: if_splits option.splits)
qed

lemma secret_shaped_listed:
  "key \<in> set recognized \<union> set whitelist \<Longrightarrow>
     str_includes key ''SECRET'' \<or> str_includes key ''TOKEN'' \<Longrightarrow> hasAllowedPrefix key"
  unfolding recognized_def whitelist_def hasAllowedPrefix_def cursorAgentPrefix_def
    npmConfigPrefix_def lcPrefix_def
  by auto

text \<open>
  Claim C4.  Whatever the ambient process environment and the validated configuration,
  every key of the object \<open>getSafeEnvironment\<close> returns is a recognised
  validated-configuration variable, a member of the fixed allow-list, or carries one of the
  prefixes \<open>CURSOR_AGENT_\<close>, \<open>NPM_CONFIG_\<close>, \<open>LC_\<close>; so a key that contains \<open>SECRET\<close> or
  \<open>TOKEN\<close> is there only if it carries one of these prefixes.
\<close>

theorem C4_safe_environment_keys:
  "(\<forall>key. key \<in> dom (getSafeEnvironment penv env) \<longrightarrow>
       key \<in> set recognized \<or> key \<in> set whitelist \<or> hasAllowedPrefix key)
   \<and> (\<forall>key. key \<in> dom (getSafeEnvironment penv env)
          \<and> (str_includes key ''SECRET'' \<or> str_includes key ''TOKEN'') \<longrightarrow>
        hasAllowedPrefix key)"
proof -
  have keys: "key \<in> set recognized \<or> key \<in> set whitelist \<or> hasAllowedPrefix key"
    if "key \<in> dom (getSafeEnvironment penv env)" for key
    using that dom_copyAllowed [of key penv "fromValidatedEnv penv env"]
      dom_fromValidatedEnv [of key penv env]
    by (auto simp: getSafeEnvironment_def)
  have "hasAllowedPrefix key"
    if "key \<in> dom (getSafeEnvironment penv env)"
      and "str_includes key ''SECRET'' \<or> str_includes key ''TOKEN''" for key
    using keys [OF that(1)] that(2) secret_shaped_listed [of key]
    by auto
  with keys show ?thesis by blast
qed

theorem C4_safe_environment_witness:
  "''CURSOR_AGENT_TOKEN'' \<in> dom (getSafeEnvironment
       [(''PATH'', ''/usr/bin''), (''SECRET_KEY'', ''s3cr3t''), (''API_TOKEN'', ''t0k3n''),
        (''CURSOR_AGENT_TOKEN'', ''abc'')] defaultEnv)
   \<and> hasAllowedPrefix ''CURSOR_AGENT_TOKEN''
   \<and> ''PATH'' \<in> dom (getSafeEnvironment
       [(''PATH'', ''/usr/bin''), (''SECRET_KEY'', ''s3cr3t''), (''API_TOKEN'', ''t0k3n''),
        (''CURSOR_AGENT_TOKEN'', ''abc'')] defaultEnv)
   \<and> ''SECRET_KEY'' \<notin> dom (getSafeEnvironment
       [(''PATH'', ''/usr/bin''), (''SECRET_KEY'', ''s3cr3t''), (''API_TOKEN'', ''t0k3n''),
        (''CURSOR_AGENT_TOKEN'', ''abc'')] defaultEnv)
   \<and> ''API_TOKEN'' \<notin> dom (getSafeEnvironment
       [(''PATH'', ''/usr/bin''), (''SECRET_KEY'', ''s3cr3t''), (''API_TOKEN'', ''t0k3n''),
        (''CURSOR_AGENT_TOKEN'', ''abc'')] defaultEnv)"
proof -
  let ?e = "getSafeEnvironment
       [(''PATH'', ''/usr/bin''), (''SECRET_KEY'', ''s3cr3t''), (''API_TOKEN'', ''t0k3n''),
        (''CURSOR_AGENT_TOKEN'', ''abc'')] defaultEnv"
  have p: "\<not> hasAllowedPrefix ''SECRET_KEY''" "\<not> hasAllowedPrefix ''API_TOKEN''"
    "hasAllowedPrefix ''CURSOR_AGENT_TOKEN''"
    by (simp_all add: hasAllowedPrefix_def cursorAgentPrefix_def npmConfigPrefix_def lcPrefix_def)
  have i: "str_includes ''SECRET_KEY'' ''SECRET''" "str_includes ''API_TOKEN'' ''TOKEN''"
    by simp_all
  have d: "''CURSOR_AGENT_TOKEN'' \<in> dom ?e" "''PATH'' \<in> dom ?e"
    by (simp_all add: getSafeEnvironment_def fromValidatedEnv_def validatedAssignments_def
        defaultEnv_def whitelist_def hasAllowedPrefix_def cursorAgentPrefix_def
        npmConfigPrefix_def lcPrefix_def)
  from C4_safe_environment_keys [of _ defaultEnv] p i d show ?thesis
    by blast
qed

subsection \<open>The configured executable override\<close>

lemma str_split_no_sep:
  "\<not> str_includes x [sep] \<Longrightarrow> str_split sep x = [x]"
  by (induction x) (auto split: list.splits)

lemma not_includes_not_first:
  "\<not> str_includes x ''/'' \<Longrightarrow> \<not> path_isAbsolute x"
  by (cases x) (auto simp: path_isAbsolute_def)

lemma path_normalize_bare:
  assumes "x \<noteq> []" and "\<not> str_includes x ''/''"
  shows "path_normalize x = x"
proof -
  have s: "str_split CHR ''/'' x = [x]"
    using assms(2) by (rule str_split_no_sep)
  have a: "\<not> path_isAbsolute x"
    using assms(2) by (rule not_includes_not_first)
  have l: "last x \<noteq> CHR ''/''"
    using assms by (induction x) (auto split: if_splits)
  show ?thesis
    using assms(1) a l
    by (auto simp: path_normalize_def normalizeString_def s Let_def)
qed

text \<open>
  What the schema does reject and accept: it throws for every value whose normalized form
  (of the trimmed value) contains \<open>..\<close>, and for every value whose normalized form is
  relative and contains a path separator; a bare command name, with no separator and no
  \<open>..\<close>, is accepted and returned although it is not absolute, and
  \<open>validateExecutablePath\<close> then resolves to it.
\<close>

lemma executablePathSchema_policy:
  "(str_includes (path_normalize (trim v)) ''..'' \<longrightarrow>
      executablePathSchema (Some v) = Inl InvalidTraversalInEnv)
   \<and> (\<not> path_isAbsolute (path_normalize (trim v)) \<and> str_includes (path_normalize (trim v)) ''/'' \<longrightarrow>
      executablePathSchema (Some v) = Inl InvalidTraversalInEnv)
   \<and> (trim v \<noteq> [] \<and> \<not> str_includes (trim v) ''/'' \<and> \<not> str_includes (trim v) ''..'' \<longrightarrow>
      executablePathSchema (Some v) = Inr (Some (trim v))
      \<and> \<not> path_isAbsolute (trim v)
      \<and> validateExecutablePath (env\<lparr>CURSOR_AGENT_PATH := Some (trim v)\<rparr>) None = Inr (trim v))"
proof (intro conjI impI)
  assume "str_includes (path_normalize (trim v)) ''..''"
  moreover have "trim v \<noteq> []"
    using calculation by (auto simp: path_normalize_def)
  ultimately show "executablePathSchema (Some v) = Inl InvalidTraversalInEnv"
    by (auto simp: executablePathSchema_def Let_def trim_def)
next
  assume a: "\<not> path_isAbsolute (path_normalize (trim v))
             \<and> str_includes (path_normalize (trim v)) ''/''"
  then have "trim v \<noteq> []"
    by (auto simp: path_normalize_def)
  with a show "executablePathSchema (Some v) = Inl InvalidTraversalInEnv"
    by (auto simp: executablePathSchema_def Let_def trim_def)
next
  assume b: "trim v \<noteq> [] \<and> \<not> str_includes (trim v) ''/'' \<and> \<not> str_includes (trim v) ''..''"
  then have n: "path_normalize (trim v) = trim v"
    by (simp add: path_normalize_bare)
  have v: "v \<noteq> []"
    using b by (auto simp: trim_def)
  show "executablePathSchema (Some v) = Inr (Some (trim v))"
    using b v by (simp add: executablePathSchema_def Let_def n not_includes_not_first)
  show "\<not> path_isAbsolute (trim v)"
    using b by (simp add: not_includes_not_first)
  show "validateExecutablePath (env\<lparr>CURSOR_AGENT_PATH := Some (trim v)\<rparr>) None = Inr (trim v)"
    using b by (simp add: validateExecutablePath_def)
qed

lemma executablePathSchema_policy_examples:
  "executablePathSchema (Some ''../../malicious/path'') = Inl InvalidTraversalInEnv
   \<and> executablePathSchema (Some ''bin/cursor-agent'') = Inl InvalidTraversalInEnv
   \<and> executablePathSchema (Some ''my-agent'') = Inr (Some ''my-agent'')
   \<and> \<not> path_isAbsolute ''my-agent''
   \<and> validateExecutablePath (defaultEnv\<lparr>CURSOR_AGENT_PATH := Some ''my-agent''\<rparr>) None
        = Inr ''my-agent''"
proof -
  have t: "trim ''../../malicious/path'' = ''../../malicious/path''"
    "trim ''bin/cursor-agent'' = ''bin/cursor-agent''" "trim ''my-agent'' = ''my-agent''"
    by (simp_all add: trim_def isWhiteSpace_def)
  have n: "path_normalize ''../../malicious/path'' = ''../../malicious/path''"
    "path_normalize ''bin/cursor-agent'' = ''bin/cursor-agent''"
    by (simp_all add: path_normalize_def path_isAbsolute_def normalizeString_def)
  have i: "str_includes ''../../malicious/path'' ''..''"
    "\<not> path_isAbsolute ''bin/cursor-agent''" "str_includes ''bin/cursor-agent'' ''/''"
    "\<not> str_includes ''my-agent'' ''/''" "\<not> str_includes ''my-agent'' ''..''"
    by (simp_all add: path_isAbsolute_def)
  show ?thesis
    using executablePathSchema_policy [of "''../../malicious/path''" defaultEnv]
      executablePathSchema_policy [of "''bin/cursor-agent''" defaultEnv]
      executablePathSchema_policy [of "''my-agent''" defaultEnv] i
    by (simp add: t n)
qed

lemma trim_nonempty: "trim v \<noteq> [] \<Longrightarrow> v \<noteq> []"
  by (auto simp: trim_def)

lemma path_normalize_dot_slash:
  assumes "x \<noteq> []" and "\<not> str_includes x ''/''" and "\<not> str_includes x ''..''"
  shows "path_normalize (''./'' @ x) = x"
proof -
  have s: "str_split CHR ''/'' x = [x]"
    using assms(2) by (rule str_split_no_sep)
  have l: "last x \<noteq> CHR ''/''"
    using assms(1,2) by (induction x) (auto split: if_splits)
  have d: "x \<noteq> ''..''"
    using assms(3) by auto
  show ?thesis
    using assms(1) l d
    by (auto simp: path_normalize_def normalizeString_def path_isAbsolute_def s Let_def)
qed

text \<open>
  Claim C10 is not what the source does.  The claim: every relative value of
  \<open>CURSOR_AGENT_PATH\<close> that contains a path separator makes parsing throw.  The schema tests
  the normalized form for a separator and returns the trimmed value: every value that
  trims to \<open>./\<close> followed by a bare name is relative, contains a separator, and is accepted
  and returned as it is, so that \<open>validateExecutablePath\<close> resolves to it.  The second
  theorem evaluates \<open>./agent\<close> and \<open>a/../agent\<close>, through \<open>getValidatedEnv\<close> as well, next to
  \<open>bin/cursor-agent\<close>, which is rejected.
\<close>

theorem C10_dot_slash_value_accepted:
  assumes "trim v = ''./'' @ x" and "x \<noteq> []"
    and "\<not> str_includes x ''/''" and "\<not> str_includes x ''..''"
  shows "executablePathSchema (Some v) = Inr (Some (''./'' @ x))
         \<and> \<not> path_isAbsolute (''./'' @ x) \<and> str_includes (''./'' @ x) ''/''
         \<and> validateExecutablePath (env\<lparr>CURSOR_AGENT_PATH := Some (''./'' @ x)\<rparr>) None
             = Inr (''./'' @ x)"
proof -
  have n: "path_normalize (CHR ''.'' # CHR ''/'' # x) = x"
    using path_normalize_dot_slash [OF assms(2-4)] by simp
  have v: "v \<noteq> []" "trim v \<noteq> []"
    using assms(1) trim_nonempty [of v] by simp_all
  have a: "\<not> path_isAbsolute x"
    using assms(3) by (rule not_includes_not_first)
  have 1: "executablePathSchema (Some v) = Inr (Some (''./'' @ x))"
    using v a assms(3,4) by (simp add: executablePathSchema_def Let_def n assms(1))
  have 2: "\<not> path_isAbsolute (''./'' @ x)" "str_includes (''./'' @ x) ''/''"
    by (simp_all add: path_isAbsolute_def)
  have 3: "validateExecutablePath (env\<lparr>CURSOR_AGENT_PATH := Some (''./'' @ x)\<rparr>) None
             = Inr (''./'' @ x)"
    by (simp add: validateExecutablePath_def)
  from 1 2 3 show ?thesis by simp
qed

theorem C10_dot_slash_agent_accepted:
  "executablePathSchema (Some ''./agent'') = Inr (Some ''./agent'')
   \<and> \<not> path_isAbsolute ''./agent'' \<and> str_includes ''./agent'' ''/''
   \<and> executablePathSchema (Some ''a/../agent'') = Inr (Some ''a/../agent'')
   \<and> getValidatedEnv (\<lambda>s. NaN) [(''CURSOR_AGENT_PATH'', ''./agent'')]
        = Inr (defaultEnv\<lparr>CURSOR_AGENT_PATH := Some ''./agent''\<rparr>)
   \<and> validateExecutablePath (defaultEnv\<lparr>CURSOR_AGENT_PATH := Some ''./agent''\<rparr>) None
        = Inr ''./agent''
   \<and> executablePathSchema (Some ''bin/cursor-agent'') = Inl InvalidTraversalInEnv"
proof -
  have t: "trim ''./agent'' = ''./'' @ ''agent''"
    by (simp add: trim_def isWhiteSpace_def)
  have i: "''agent'' \<noteq> []" "\<not> str_includes ''agent'' ''/''" "\<not> str_includes ''agent'' ''..''"
    by simp_all
  have a: "executablePathSchema (Some ''a/../agent'') = Inr (Some ''a/../agent'')"
    "executablePathSchema (Some ''bin/cursor-agent'') = Inl InvalidTraversalInEnv"
    by (simp_all add: executablePathSchema_def path_isAbsolute_def path_normalize_def
        normalizeString_def trim_def isWhiteSpace_def)
  have s: "executablePathSchema (Some ''./agent'') = Inr (Some ''./agent'')"
    using C10_dot_slash_value_accepted [OF t i, of defaultEnv] by simp
  have g: "getValidatedEnv (\<lambda>s. NaN) [(''CURSOR_AGENT_PATH'', ''./agent'')]
        = Inr (defaultEnv\<lparr>CURSOR_AGENT_PATH := Some ''./agent''\<rparr>)"
    by (simp add: getValidatedEnv_def ENV_SCHEMA_parse_def s clientSchema_def modelSchema_def
        booleanEnvSchema_def positiveIntMsSchema_def defaultEnv_def)
  show ?thesis
    using C10_dot_slash_value_accepted [OF t i, of defaultEnv] a g by simp
qed

section \<open>Properties of an invocation\<close>

subsection \<open>What the progress decoder leaves alone\<close>

lemma callOnProgress_frame [simp]:
  "settled (callOnProgress p s) = settled s" "out (callOnProgress p s) = out s"
  "err (callOnProgress p s) = err s" "idleTimer (callOnProgress p s) = idleTimer s"
  "mainTimer (callOnProgress p s) = mainTimer s" "killedByIdle (callOnProgress p s) = killedByIdle s"
  "resolved (callOnProgress p s) = resolved s" "kills (callOnProgress p s) = kills s"
  by (simp_all add: callOnProgress_def)

lemma toolStarted_frame [simp]:
  "settled (toolStarted tc s) = settled s" "out (toolStarted tc s) = out s"
  "err (toolStarted tc s) = err s" "idleTimer (toolStarted tc s) = idleTimer s"
  "mainTimer (toolStarted tc s) = mainTimer s" "killedByIdle (toolStarted tc s) = killedByIdle s"
  "resolved (toolStarted tc s) = resolved s" "kills (toolStarted tc s) = kills s"
  by (simp_all add: toolStarted_def Let_def split: option.splits)

lemma toolCompleted_frame [simp]:
  "settled (toolCompleted tc s) = settled s" "out (toolCompleted tc s) = out s"
  "err (toolCompleted tc s) = err s" "idleTimer (toolCompleted tc s) = idleTimer s"
  "mainTimer (toolCompleted tc s) = mainTimer s" "killedByIdle (toolCompleted tc s) = killedByIdle s"
  "resolved (toolCompleted tc s) = resolved s" "kills (toolCompleted tc s) = kills s"
  by (simp_all add: toolCompleted_def Let_def split: option.splits write_result.splits read_result.splits)

lemma handleStreamEvent_frame [simp]:
  "settled (handleStreamEvent hp ev s) = settled s" "out (handleStreamEvent hp ev s) = out s"
  "err (handleStreamEvent hp ev s) = err s" "idleTimer (handleStreamEvent hp ev s) = idleTimer s"
  "mainTimer (handleStreamEvent hp ev s) = mainTimer s"
  "killedByIdle (handleStreamEvent hp ev s) = killedByIdle s"
  "resolved (handleStreamEvent hp ev s) = resolved s" "kills (handleStreamEvent hp ev s) = kills s"
  by (cases hp; cases ev; simp add: Let_def split: option.splits)+

lemma parseLine_frame [simp]:
  "settled (parseLine parse hp ln s) = settled s" "out (parseLine parse hp ln s) = out s"
  "err (parseLine parse hp ln s) = err s" "idleTimer (parseLine parse hp ln s) = idleTimer s"
  "mainTimer (parseLine parse hp ln s) = mainTimer s"
  "killedByIdle (parseLine parse hp ln s) = killedByIdle s"
  "resolved (parseLine parse hp ln s) = resolved s" "kills (parseLine parse hp ln s) = kills s"
  by (simp_all add: parseLine_def Let_def split: option.splits)

lemma parseLines_frame [simp]:
  "settled (parseLines parse hp lns s) = settled s" "out (parseLines parse hp lns s) = out s"
  "err (parseLines parse hp lns s) = err s" "idleTimer (parseLines parse hp lns s) = idleTimer s"
  "mainTimer (parseLines parse hp lns s) = mainTimer s"
  "killedByIdle (parseLines parse hp lns s) = killedByIdle s"
  "resolved (parseLines parse hp lns s) = resolved s" "kills (parseLines parse hp lns s) = kills s"
  by (induction lns arbitrary: s; simp)+

lemma processRemainingLine_frame [simp]:
  "settled (processRemainingLine parse hp iv s) = settled s"
  "out (processRemainingLine parse hp iv s) = out s"
  "err (processRemainingLine parse hp iv s) = err s"
  "idleTimer (processRemainingLine parse hp iv s) = idleTimer s"
  "mainTimer (processRemainingLine parse hp iv s) = mainTimer s"
  "killedByIdle (processRemainingLine parse hp iv s) = killedByIdle s"
  "resolved (processRemainingLine parse hp iv s) = resolved s"
  "kills (processRemainingLine parse hp iv s) = kills s"
  by (simp_all add: processRemainingLine_def split: option.splits)

lemma onStdoutData_frame [simp]:
  "settled (onStdoutData parse hp iv chunk s) = settled s"
  "mainTimer (onStdoutData parse hp iv chunk s) = mainTimer s"
  "resolved (onStdoutData parse hp iv chunk s) = resolved s"
  by (simp_all add: onStdoutData_def scheduleIdleKill_def Let_def)

subsection \<open>Single resolution\<close>

text \<open>What holds of every state an invocation reaches.\<close>

lemma step_consistent:
  assumes "if settled s then \<not> mainTimer s \<and> length (resolved s) = 1
           else mainTimer s \<and> resolved s = []"
  shows "if settled (step parse hp iv s e)
         then \<not> mainTimer (step parse hp iv s e) \<and> length (resolved (step parse hp iv s e)) = 1
         else mainTimer (step parse hp iv s e) \<and> resolved (step parse hp iv s e) = []"
  using assms
  by (cases e)
    (auto simp: onStderrData_def onError_def onMainTimer_def onIdleTimer_def onClose_def
      cleanup_def resolve_def kill_def Let_def split: if_splits)

lemma run_snoc: "run parse hp iv s (events @ [e]) = step parse hp iv (run parse hp iv s events) e"
  by (simp add: run_def)

lemma run_consistent:
  "if settled (run parse hp iv initial events)
   then \<not> mainTimer (run parse hp iv initial events)
        \<and> length (resolved (run parse hp iv initial events)) = 1
   else mainTimer (run parse hp iv initial events) \<and> resolved (run parse hp iv initial events) = []"
proof (induction events rule: rev_induct)
  case Nil
  then show ?case by (simp add: run_def initial_def)
next
  case (snoc e events)
  show ?case
    unfolding run_snoc by (rule step_consistent) (rule snoc.IH)
qed

lemma step_settles:
  assumes "if settled s then \<not> mainTimer s else mainTimer s"
  shows "settled (step parse hp iv s e) \<longleftrightarrow> settled s \<or> completes e"
  using assms
  by (cases e)
    (auto simp: onStderrData_def onError_def onMainTimer_def onIdleTimer_def onClose_def
      cleanup_def resolve_def kill_def Let_def split: if_splits)

lemma run_settled: "settled (run parse hp iv initial events) \<longleftrightarrow> list_ex completes events"
proof (induction events rule: rev_induct)
  case Nil
  then show ?case by (simp add: run_def initial_def)
next
  case (snoc e events)
  have "if settled (run parse hp iv initial events)
        then \<not> mainTimer (run parse hp iv initial events)
        else mainTimer (run parse hp iv initial events)"
    using run_consistent [of parse hp iv events] by (simp split: if_splits)
  then show ?case
    unfolding run_snoc using snoc.IH by (simp add: step_settles)
qed

lemma settled_noop:
  assumes "settled s" and "\<not> mainTimer s"
  shows "completes e \<Longrightarrow> step parse hp iv s e = s"
    and "resolved (step parse hp iv s e) = resolved s"
  using assms
  by (cases e; simp add: onStderrData_def onError_def onMainTimer_def onIdleTimer_def onClose_def
      kill_def)+

lemma first_completion:
  assumes "\<not> settled s" and "mainTimer s" and "resolved s = []" and "completes e"
  shows "settled (step parse hp iv s e) \<and> \<not> mainTimer (step parse hp iv s e)
         \<and> \<not> idleTimer (step parse hp iv s e) \<and> length (resolved (step parse hp iv s e)) = 1"
  using assms
  by (cases e)
    (simp_all add: onError_def onMainTimer_def onClose_def cleanup_def resolve_def kill_def Let_def)

text \<open>
  Claim C1.  For every sequence of events delivered to an invocation, \<open>resolve\<close> is called
  at most once, and exactly once as soon as the sequence holds a completing event (the
  child's close or error, or the main timer): the first of them sets \<open>settled\<close>, clears both
  timers and resolves the promise.  Once \<open>settled\<close> is set, every later completing event
  leaves the state as it is, and no event at all adds a resolution.  The idle timer's
  callback never resolves: an idle kill completes through the close event that follows
  it, and an idle timer that output re-arms after settlement can only set \<open>killedByIdle\<close>
  and signal the child again.  The source has no cancellation path.
\<close>

theorem C1_single_resolution:
  "length (resolved (run parse hp iv initial events)) \<le> 1
   \<and> (length (resolved (run parse hp iv initial events)) = 1 \<longleftrightarrow> list_ex completes events)
   \<and> (settled (run parse hp iv initial events) \<longleftrightarrow> list_ex completes events)
   \<and> (settled (run parse hp iv initial events) \<and> completes e \<longrightarrow>
        step parse hp iv (run parse hp iv initial events) e = run parse hp iv initial events)
   \<and> (settled (run parse hp iv initial events) \<longrightarrow>
        resolved (step parse hp iv (run parse hp iv initial events) e)
          = resolved (run parse hp iv initial events))
   \<and> (\<not> settled (run parse hp iv initial events) \<and> completes e \<longrightarrow>
        settled (step parse hp iv (run parse hp iv initial events) e)
        \<and> \<not> mainTimer (step parse hp iv (run parse hp iv initial events) e)
        \<and> \<not> idleTimer (step parse hp iv (run parse hp iv initial events) e)
        \<and> length (resolved (step parse hp iv (run parse hp iv initial events) e)) = 1)"
proof -
  let ?s = "run parse hp iv initial events"
  note c = run_consistent [of parse hp iv events]
  have 1: "length (resolved ?s) \<le> 1"
    using c by (simp split: if_splits)
  have 2: "length (resolved ?s) = 1 \<longleftrightarrow> list_ex completes events"
    using c run_settled [of parse hp iv events] by (simp split: if_splits)
  have 3: "settled ?s \<and> completes e \<longrightarrow> step parse hp iv ?s e = ?s"
    using c settled_noop(1) [of ?s e parse hp iv] by (simp split: if_splits)
  have 4: "settled ?s \<longrightarrow> resolved (step parse hp iv ?s e) = resolved ?s"
    using c settled_noop(2) [of ?s parse hp iv e] by (simp split: if_splits)
  have 5: "\<not> settled ?s \<and> completes e \<longrightarrow>
        settled (step parse hp iv ?s e) \<and> \<not> mainTimer (step parse hp iv ?s e)
        \<and> \<not> idleTimer (step parse hp iv ?s e) \<and> length (resolved (step parse hp iv ?s e)) = 1"
    using c first_completion [of ?s e parse hp iv] by (simp split: if_splits)
  from 1 2 3 4 5 run_settled [of parse hp iv events] show ?thesis
    by blast
qed


theorem C1_single_resolution_witness:
  "step (\<lambda>_. None) False
       \<lparr>cmd = ''cursor-agent'', args = [''test''], safeEnv = Map.empty, useStreamJson = False,
        idleMs = 100, timeoutMs = 30000\<rparr>
       (run (\<lambda>_. None) False
          \<lparr>cmd = ''cursor-agent'', args = [''test''], safeEnv = Map.empty, useStreamJson = False,
           idleMs = 100, timeoutMs = 30000\<rparr> initial [StdoutData ''partial'', MainTimerFired])
       (ChildClose (Some 0))
     = run (\<lambda>_. None) False
          \<lparr>cmd = ''cursor-agent'', args = [''test''], safeEnv = Map.empty, useStreamJson = False,
           idleMs = 100, timeoutMs = 30000\<rparr> initial [StdoutData ''partial'', MainTimerFired]
   \<and> resolved (run (\<lambda>_. None) False
          \<lparr>cmd = ''cursor-agent'', args = [''test''], safeEnv = Map.empty, useStreamJson = False,
           idleMs = 100, timeoutMs = 30000\<rparr> initial [StdoutData ''partial'', MainTimerFired])
       = [\<lparr>content_text = ''cursor-agent timed out after 30000ms'', isError = True\<rparr>]"
proof -
  let ?iv = "\<lparr>cmd = ''cursor-agent'', args = [''test''], safeEnv = Map.empty, useStreamJson = False,
           idleMs = 100, timeoutMs = 30000\<rparr>"
  have r: "resolved (run (\<lambda>_. None) False ?iv initial [StdoutData ''partial'', MainTimerFired])
       = [\<lparr>content_text = ''cursor-agent timed out after 30000ms'', isError = True\<rparr>]"
    by (simp add: run_def initial_def onStdoutData_def scheduleIdleKill_def onMainTimer_def
        kill_def cleanup_def resolve_def Let_def digit_def)
  show ?thesis
    using C1_single_resolution
      [of "\<lambda>_. None" False ?iv "[StdoutData ''partial'', MainTimerFired]" "ChildClose (Some 0)"] r
    by simp
qed

subsection \<open>The result on close\<close>

text \<open>
  Claim C5.  When the child closes and the invocation is not yet settled, the promise
  resolves to a success (no error flag; the accumulated stdout, or \<open>(no output)\<close> when it is
  empty) if and only if the exit code is zero or the child was killed for idleness with
  non-empty stdout; otherwise it resolves to an error whose text gives the exit code and
  then stderr if non-empty, else stdout if non-empty, else \<open>(no output)\<close>.
\<close>

theorem C5_close_result:
  assumes "\<not> settled s"
  shows "resolved (step parse hp iv s (ChildClose code)) =
           resolved s @
           [if code = Some 0 \<or> (killedByIdle s \<and> out s \<noteq> [])
            then \<lparr>content_text = (if out s = [] then noOutput else out s), isError = False\<rparr>
            else \<lparr>content_text =
                    ''cursor-agent exited with code '' @ String_code code @ [CHR 0x0A]
                    @ (if err s \<noteq> [] then err s else if out s \<noteq> [] then out s else noOutput),
                  isError = True\<rparr>]"
  using assms
  by (simp add: onClose_def closeResult_def resolve_def cleanup_def Let_def)

theorem C5_close_result_witness:
  "resolved (run (\<lambda>_. None) False
       \<lparr>cmd = ''cursor-agent'', args = [''test''], safeEnv = Map.empty, useStreamJson = False,
        idleMs = 100, timeoutMs = 30000\<rparr> initial
       [StdoutData ''partial'', IdleTimerFired, ChildClose None])
     = [\<lparr>content_text = ''partial'', isError = False\<rparr>]
   \<and> resolved (run (\<lambda>_. None) False
       \<lparr>cmd = ''cursor-agent'', args = [''test''], safeEnv = Map.empty, useStreamJson = False,
        idleMs = 100, timeoutMs = 30000\<rparr> initial
       [StdoutData ''output'', StderrData ''boom'', ChildClose (Some 1)])
     = [\<lparr>content_text = ''cursor-agent exited with code 1'' @ [CHR 0x0A] @ ''boom'',
         isError = True\<rparr>]"
proof -
  let ?iv = "\<lparr>cmd = ''cursor-agent'', args = [''test''], safeEnv = Map.empty, useStreamJson = False,
           idleMs = 100, timeoutMs = 30000\<rparr>"
  let ?s = "run (\<lambda>_. None) False ?iv initial [StdoutData ''partial'', IdleTimerFired]"
  let ?t = "run (\<lambda>_. None) False ?iv initial [StdoutData ''output'', StderrData ''boom'']"
  have s: "\<not> settled ?s" "killedByIdle ?s" "out ?s = ''partial''" "resolved ?s = []"
    by (simp_all add: run_def initial_def onStdoutData_def scheduleIdleKill_def onIdleTimer_def
        kill_def Let_def)
  have t: "\<not> settled ?t" "\<not> killedByIdle ?t" "out ?t = ''output''" "err ?t = ''boom''"
    "resolved ?t = []"
    by (simp_all add: run_def initial_def onStdoutData_def scheduleIdleKill_def onStderrData_def
        Let_def)
  have 1: "run (\<lambda>_. None) False ?iv initial [StdoutData ''partial'', IdleTimerFired, ChildClose None]
           = step (\<lambda>_. None) False ?iv ?s (ChildClose None)"
    by (simp add: run_def)
  have 2: "run (\<lambda>_. None) False ?iv initial
             [StdoutData ''output'', StderrData ''boom'', ChildClose (Some 1)]
           = step (\<lambda>_. None) False ?iv ?t (ChildClose (Some 1))"
    by (simp add: run_def)
  show ?thesis
    unfolding 1 2
    using C5_close_result [of ?s "\<lambda>_. None" False ?iv None]
      C5_close_result [of ?t "\<lambda>_. None" False ?iv "Some 1"] s t
    by (simp add: String_code_def digit_def)
qed

subsection \<open>An aborted signal\<close>

lemma finalArgv_ignores_signal:
  "finalArgv env (req\<lparr>signal := sg\<rparr>) = finalArgv env req"
  unfolding finalArgv_def
  by (simp cong: if_cong option.case_cong)

lemma spawn_ignores_signal:
  "invokeCursorAgent_spawn process_cwd penv env (req\<lparr>signal := sg\<rparr>)
     = invokeCursorAgent_spawn process_cwd penv env req"
  by (simp add: invokeCursorAgent_spawn_def finalArgv_ignores_signal cong: sum.case_cong)

text \<open>
  Claim C6 is not what the source does.  The claim: given a cancellation signal that is
  already triggered, \<open>invokeCursorAgent\<close> resolves at once to a cancellation error and spawns
  no child.  The source never reads \<open>signal\<close>: for every request, signal and sequence of
  events, the call behaves as the same call without the signal.  So with an aborted signal
  the child is still spawned and the promise follows the child's events, as the second
  theorem evaluates.
\<close>

theorem C6_signal_not_read:
  "invokeCursorAgent parse process_cwd penv env (req\<lparr>signal := sg\<rparr>) events
     = invokeCursorAgent parse process_cwd penv env req events"
  by (simp add: invokeCursorAgent_def spawn_ignores_signal invocation_of_def cong: sum.case_cong)

theorem C6_preaborted_signal_spawns:
  "invokeCursorAgent (\<lambda>_. None) ''/x/repo'' [] defaultEnv
     (defaultRequest\<lparr>argv := Some [''test''],
        signal := Some \<lparr>aborted = True, reason = ''Test cancellation''\<rparr>\<rparr>) []
     = Inr (\<lparr>spawn_cmd = ''cursor-agent'',
             spawn_args = [''--print'', ''--output-format'', ''text'', ''test''],
             spawn_cwd = ''/x/repo'', spawn_env = Map.empty\<rparr>, None)
   \<and> invokeCursorAgent (\<lambda>_. None) ''/x/repo'' [] defaultEnv
     (defaultRequest\<lparr>argv := Some [''test''],
        signal := Some \<lparr>aborted = True, reason = ''Test cancellation''\<rparr>\<rparr>)
     [StdoutData ''output'', ChildClose (Some 0)]
     = Inr (\<lparr>spawn_cmd = ''cursor-agent'',
             spawn_args = [''--print'', ''--output-format'', ''text'', ''test''],
             spawn_cwd = ''/x/repo'', spawn_env = Map.empty\<rparr>,
            Some \<lparr>content_text = ''output'', isError = False\<rparr>)"
proof -
  let ?req = "defaultRequest\<lparr>argv := Some [''test'']\<rparr>"
  let ?call = "\<lparr>spawn_cmd = ''cursor-agent'',
             spawn_args = [''--print'', ''--output-format'', ''text'', ''test''],
             spawn_cwd = ''/x/repo'', spawn_env = Map.empty\<rparr>"
  let ?iv = "\<lparr>cmd = ''cursor-agent'', args = [''--print'', ''--output-format'', ''text'', ''test''],
             safeEnv = Map.empty, useStreamJson = False, idleMs = 0, timeoutMs = 30000\<rparr>"
  have c: "invokeCursorAgent_spawn ''/x/repo'' [] defaultEnv ?req = Inr ?call"
    by (simp add: invokeCursorAgent_spawn_def validateExecutablePath_def validateWorkingDirectory_def
        defaultEnv_def defaultRequest_def finalArgv_def isModelFlag_def isForceFlag_def
        getSafeEnvironment_def fromValidatedEnv_def validatedAssignments_def Let_def)
  have i: "invocation_of defaultEnv ?req ?call = ?iv" "onProgress ?req = False"
    by (simp_all add: invocation_of_def defaultEnv_def defaultRequest_def defaultTimeout_def)
  have r: "resolved (run (\<lambda>_. None) False ?iv initial []) = []"
    "resolved (run (\<lambda>_. None) False ?iv initial [StdoutData ''output'', ChildClose (Some 0)])
       = [\<lparr>content_text = ''output'', isError = False\<rparr>]"
    by (simp_all add: run_def initial_def onStdoutData_def scheduleIdleKill_def onClose_def
        cleanup_def processRemainingLine_def closeResult_def resolve_def Let_def)
  have 1: "invokeCursorAgent (\<lambda>_. None) ''/x/repo'' [] defaultEnv ?req [] = Inr (?call, None)"
    unfolding invokeCursorAgent_def c sum.case i r by simp
  have 2: "invokeCursorAgent (\<lambda>_. None) ''/x/repo'' [] defaultEnv ?req
             [StdoutData ''output'', ChildClose (Some 0)]
           = Inr (?call, Some \<lparr>content_text = ''output'', isError = False\<rparr>)"
    unfolding invokeCursorAgent_def c sum.case i r by simp
  show ?thesis
    using C6_signal_not_read [where parse = "\<lambda>_. None" and process_cwd = "''/x/repo''"
        and penv = "[]" and env = defaultEnv and req = ?req
        and sg = "Some \<lparr>aborted = True, reason = ''Test cancellation''\<rparr>"] 1 2
    by simp
qed

subsection \<open>Progress for assistant events\<close>

text \<open>
  Claim C7 is not what the source does.  The claim: the progress message of an
  \<open>assistant\<close> event is the event's raw text delta.  In the source, an \<open>assistant\<close> event
  with a non-empty text appends the text to \<open>accumulatedText\<close> and calls \<open>onProgress\<close> once,
  with the cumulative length as the progress value and the message
  \<open>Generating response... (N characters)\<close>, \<open>N\<close> being that length; the delta is not in
  the message.  The second theorem evaluates the events \<open>Hello\<close> and \<open> world\<close>, directly and
  through the line decoder.
\<close>

theorem C7_assistant_progress_message:
  assumes "t \<noteq> []"
  shows "handleStreamEvent True (AssistantEvent (Some t)) s =
           s\<lparr>accumulatedText := accumulatedText s @ t,
             progressed := progressed s @
               [\<lparr>progress = length (accumulatedText s @ t), total = None,
                 message = ''Generating response... (''
                           @ String_nat (length (accumulatedText s @ t)) @ '' characters)''\<rparr>]\<rparr>"
  using assms by (simp add: callOnProgress_def Let_def)

theorem C7_hello_world_messages:
  "progressed (handleStreamEvent True (AssistantEvent (Some '' world''))
                (handleStreamEvent True (AssistantEvent (Some ''Hello'')) initial))
     = [\<lparr>progress = 5, total = None, message = ''Generating response... (5 characters)''\<rparr>,
        \<lparr>progress = 11, total = None, message = ''Generating response... (11 characters)''\<rparr>]
   \<and> progressed
        (onStdoutData
           (\<lambda>ln. if ln = ''A'' then Some (AssistantEvent (Some ''Hello''))
                 else if ln = ''B'' then Some (AssistantEvent (Some '' world'')) else None)
           True
           \<lparr>cmd = ''cursor-agent'', args = [''test''], safeEnv = Map.empty, useStreamJson = True,
            idleMs = 0, timeoutMs = 30000\<rparr>
           (''A'' @ [CHR 0x0A] @ ''B'' @ [CHR 0x0A]) initial)
     = [\<lparr>progress = 5, total = None, message = ''Generating response... (5 characters)''\<rparr>,
        \<lparr>progress = 11, total = None, message = ''Generating response... (11 characters)''\<rparr>]"
proof -
  have n: "''Hello'' \<noteq> []" "'' world'' \<noteq> []"
    by simp_all
  have 1: "progressed (handleStreamEvent True (AssistantEvent (Some '' world''))
                (handleStreamEvent True (AssistantEvent (Some ''Hello'')) initial))
     = [\<lparr>progress = 5, total = None, message = ''Generating response... (5 characters)''\<rparr>,
        \<lparr>progress = 11, total = None, message = ''Generating response... (11 characters)''\<rparr>]"
    unfolding C7_assistant_progress_message [OF n(1)] C7_assistant_progress_message [OF n(2)]
    by (simp add: initial_def digit_def)
  have 2: "onStdoutData
           (\<lambda>ln. if ln = ''A'' then Some (AssistantEvent (Some ''Hello''))
                 else if ln = ''B'' then Some (AssistantEvent (Some '' world'')) else None)
           True
           \<lparr>cmd = ''cursor-agent'', args = [''test''], safeEnv = Map.empty, useStreamJson = True,
            idleMs = 0, timeoutMs = 30000\<rparr>
           (''A'' @ [CHR 0x0A] @ ''B'' @ [CHR 0x0A]) initial
        = handleStreamEvent True (AssistantEvent (Some '' world''))
            (handleStreamEvent True (AssistantEvent (Some ''Hello''))
               (initial\<lparr>out := ''A'' @ [CHR 0x0A] @ ''B'' @ [CHR 0x0A], partialLine := []\<rparr>))"
    by (simp add: onStdoutData_def scheduleIdleKill_def parseLine_def trim_def isWhiteSpace_def
        initial_def Let_def del: handleStreamEvent.simps)
  show ?thesis
    unfolding 2
    unfolding C7_assistant_progress_message [OF n(1)] C7_assistant_progress_message [OF n(2)]
    by (simp add: initial_def digit_def)
qed

subsection \<open>The composed argument vector\<close>

text \<open>
  Claim C8.  For the raw argument vector \<open>-m\<close>, \<open>custom-model\<close>, \<open>prompt text\<close>, with no \<open>model\<close>
  option in the call, whatever the validated environment (its default model included) and
  whatever \<open>force\<close>, \<open>print\<close> and \<open>onProgress\<close>: the composed vector has exactly one model
  flag, the caller's \<open>-m\<close> followed by \<open>custom-model\<close>, no \<open>--model\<close> is injected, and
  \<open>prompt text\<close> is its last element.
\<close>

theorem C8_caller_model_flag_kept:
  "filter isModelFlag
     (finalArgv env (defaultRequest\<lparr>argv := Some [''-m'', ''custom-model'', ''prompt text''],
                       force := f, print := pr, onProgress := op\<rparr>)) = [''-m'']
   \<and> (\<exists>pre post.
         finalArgv env (defaultRequest\<lparr>argv := Some [''-m'', ''custom-model'', ''prompt text''],
                          force := f, print := pr, onProgress := op\<rparr>)
           = pre @ [''-m'', ''custom-model''] @ post @ [''prompt text'']
         \<and> filter isModelFlag pre = [] \<and> filter isModelFlag post = [])
   \<and> ''--model'' \<notin> set (finalArgv env
         (defaultRequest\<lparr>argv := Some [''-m'', ''custom-model'', ''prompt text''],
            force := f, print := pr, onProgress := op\<rparr>))
   \<and> last (finalArgv env
         (defaultRequest\<lparr>argv := Some [''-m'', ''custom-model'', ''prompt text''],
            force := f, print := pr, onProgress := op\<rparr>)) = ''prompt text''"
proof -
  let ?a = "finalArgv env (defaultRequest\<lparr>argv := Some [''-m'', ''custom-model'', ''prompt text''],
                       force := f, print := pr, onProgress := op\<rparr>)"
  let ?pre = "(if (case pr of Some b \<Rightarrow> b | None \<Rightarrow> True)
               then [''--print'', ''--output-format'', if op then ''stream-json'' else ''text'']
               else [])
              @ (if op \<and> (case pr of Some b \<Rightarrow> b | None \<Rightarrow> True)
                 then [''--stream-partial-output''] else [])"
  let ?post = "if (case f of Some b \<Rightarrow> b | None \<Rightarrow> CURSOR_AGENT_FORCE env) then [''-f''] else []"
  have a: "?a = ?pre @ [''-m'', ''custom-model''] @ ?post @ [''prompt text'']"
    by (simp add: finalArgv_def defaultRequest_def isModelFlag_def isForceFlag_def Let_def)
  have p: "filter isModelFlag ?pre = []" "filter isModelFlag ?post = []"
    by (simp_all add: isModelFlag_def)
  have 1: "filter isModelFlag ?a = [''-m'']"
    by (simp add: a isModelFlag_def)
  have 2: "''--model'' \<notin> set ?a"
    unfolding a by simp
  have 3: "last ?a = ''prompt text''"
    unfolding a by simp
  from a p 1 2 3 show ?thesis by blast
qed

theorem C8_caller_model_flag_witness:
  "finalArgv (defaultEnv\<lparr>CURSOR_AGENT_MODEL := Some ''gpt-x''\<rparr>)
     (defaultRequest\<lparr>argv := Some [''-m'', ''custom-model'', ''prompt text'']\<rparr>)
     = [''--print'', ''--output-format'', ''text'', ''-m'', ''custom-model'', ''prompt text'']
   \<and> filter isModelFlag
        (finalArgv (defaultEnv\<lparr>CURSOR_AGENT_MODEL := Some ''gpt-x''\<rparr>)
          (defaultRequest\<lparr>argv := Some [''-m'', ''custom-model'', ''prompt text'']\<rparr>)) = [''-m'']
   \<and> last (finalArgv (defaultEnv\<lparr>CURSOR_AGENT_MODEL := Some ''gpt-x''\<rparr>)
          (defaultRequest\<lparr>argv := Some [''-m'', ''custom-model'', ''prompt text'']\<rparr>))
       = ''prompt text''
   \<and> finalArgv (defaultEnv\<lparr>CURSOR_AGENT_MODEL := Some ''gpt-x''\<rparr>)
        (defaultRequest\<lparr>argv := Some [''prompt text'']\<rparr>)
       = [''--print'', ''--output-format'', ''text'', ''--model'', ''gpt-x'', ''prompt text'']"
proof -
  have r: "defaultRequest\<lparr>argv := Some [''-m'', ''custom-model'', ''prompt text''],
             force := None, print := None, onProgress := False\<rparr>
           = defaultRequest\<lparr>argv := Some [''-m'', ''custom-model'', ''prompt text'']\<rparr>"
    by (simp add: defaultRequest_def)
  have e: "finalArgv (defaultEnv\<lparr>CURSOR_AGENT_MODEL := Some ''gpt-x''\<rparr>)
     (defaultRequest\<lparr>argv := Some [''-m'', ''custom-model'', ''prompt text'']\<rparr>)
     = [''--print'', ''--output-format'', ''text'', ''-m'', ''custom-model'', ''prompt text'']"
    "finalArgv (defaultEnv\<lparr>CURSOR_AGENT_MODEL := Some ''gpt-x''\<rparr>)
        (defaultRequest\<lparr>argv := Some [''prompt text'']\<rparr>)
       = [''--print'', ''--output-format'', ''text'', ''--model'', ''gpt-x'', ''prompt text'']"
    by (simp_all add: finalArgv_def defaultRequest_def defaultEnv_def isModelFlag_def
        isForceFlag_def Let_def)
  show ?thesis
    using C8_caller_model_flag_kept
      [where env = "defaultEnv\<lparr>CURSOR_AGENT_MODEL := Some ''gpt-x''\<rparr>" and f = None
        and pr = None and op = False, unfolded r] e
    by simp
qed

subsection \<open>Error results and the ambient environment\<close>















end
